theory Spec2Isabelle
  imports Main "HOL-Library.Product_Lexorder" "HOL-Library.List_Lexorder" "HOL-Library.Char_ord"
begin

section \<open>Python values used by the downloader\<close>

text \<open>
  Exceptions of the Python source are values: a fallible operation returns
  \<open>py_exn + 'a\<close>, with \<open>Inl\<close> the raised exception.
  A Python \<open>str\<close> is a \<open>string\<close>; one \<open>char\<close> stands for one code point below 256.
\<close>

datatype py_exn = ValueError | IndexError | OverflowError | OSError

definition startswith :: "string \<Rightarrow> string \<Rightarrow> bool" where
  "startswith s p = (take (length p) s = p)"

definition endswith :: "string \<Rightarrow> string \<Rightarrow> bool" where
  "endswith s p = (length p \<le> length s \<and> drop (length s - length p) s = p)"

text \<open>A slice \<open>s[i:j]\<close> with \<open>0 \<le> i \<le> j\<close>: it clamps to the string and never raises.\<close>

definition slice :: "nat \<Rightarrow> nat \<Rightarrow> 'a list \<Rightarrow> 'a list" where
  "slice i j s = take (j - i) (drop i s)"

subsection \<open>\<open>int(str)\<close>\<close>

text \<open>
  \<open>int(s)\<close> in base 10: whitespace around the number is skipped, one sign is allowed,
  then come decimal digits, where a single underscore may stand between two digits.
  Anything else raises \<open>ValueError\<close>.
\<close>

definition is_space :: "char \<Rightarrow> bool" where
  "is_space c = (of_char c \<in> set [9, 10, 11, 12, 13, 28, 29, 30, 31, 32, 133, 160 :: nat])"

text \<open>The value of a decimal digit, by its code point (\<open>0\<close> is 48).\<close>

definition digit_val :: "char \<Rightarrow> nat option" where
  "digit_val c =
     (let code = (of_char c :: nat)
      in if 48 \<le> code \<and> code \<le> 57 then Some (code - 48) else None)"

fun parse_digits :: "nat \<Rightarrow> string \<Rightarrow> nat option" where
  "parse_digits acc [] = Some acc"
| "parse_digits acc [c] =
     (case digit_val c of None \<Rightarrow> None | Some v \<Rightarrow> Some (10 * acc + v))"
| "parse_digits acc (c # d # ds) =
     (if c = CHR ''_''
      then (case digit_val d of None \<Rightarrow> None | Some v \<Rightarrow> parse_digits (10 * acc + v) ds)
      else (case digit_val c of None \<Rightarrow> None | Some v \<Rightarrow> parse_digits (10 * acc + v) (d # ds)))"

definition parse_unsigned :: "string \<Rightarrow> nat option" where
  "parse_unsigned s =
     (case s of [] \<Rightarrow> None
      | c # cs \<Rightarrow> (case digit_val c of None \<Rightarrow> None | Some v \<Rightarrow> parse_digits v cs))"

definition strip :: "string \<Rightarrow> string" where
  "strip s = rev (dropWhile is_space (rev (dropWhile is_space s)))"

definition int_py :: "string \<Rightarrow> py_exn + int" where
  "int_py s =
     (case strip s of
        [] \<Rightarrow> Inl ValueError
      | c # cs \<Rightarrow>
          if c = CHR ''+'' then
            (case parse_unsigned cs of None \<Rightarrow> Inl ValueError | Some n \<Rightarrow> Inr (int n))
          else if c = CHR ''-'' then
            (case parse_unsigned cs of None \<Rightarrow> Inl ValueError | Some n \<Rightarrow> Inr (- int n))
          else
            (case parse_unsigned (c # cs) of None \<Rightarrow> Inl ValueError | Some n \<Rightarrow> Inr (int n)))"

text \<open>The characters that can occur in a string that \<open>int\<close> accepts.\<close>

definition int_literal_char :: "char \<Rightarrow> bool" where
  "int_literal_char c =
     (is_space c \<or> c = CHR ''+'' \<or> c = CHR ''-'' \<or> c = CHR ''_'' \<or> digit_val c \<noteq> None)"

subsection \<open>\<open>datetime\<close>\<close>

record datetime =
  year :: int
  month :: int
  day :: int
  hour :: int
  minute :: int
  second :: int
  microsecond :: int

definition is_leap :: "int \<Rightarrow> bool" where
  "is_leap y = (y mod 4 = 0 \<and> (y mod 100 \<noteq> 0 \<or> y mod 400 = 0))"

definition days_in_month :: "int \<Rightarrow> int \<Rightarrow> int" where
  "days_in_month y m =
     (if m = 2 then (if is_leap y then 29 else 28)
      else if m = 4 \<or> m = 6 \<or> m = 9 \<or> m = 11 then 30 else 31)"

text \<open>The invariant of a \<open>datetime\<close> object: what its constructor checks.\<close>

definition valid_datetime :: "datetime \<Rightarrow> bool" where
  "valid_datetime t =
     (1 \<le> year t \<and> year t \<le> 9999 \<and> 1 \<le> month t \<and> month t \<le> 12 \<and>
      1 \<le> day t \<and> day t \<le> days_in_month (year t) (month t) \<and>
      0 \<le> hour t \<and> hour t \<le> 23 \<and> 0 \<le> minute t \<and> minute t \<le> 59 \<and>
      0 \<le> second t \<and> second t \<le> 59 \<and> 0 \<le> microsecond t \<and> microsecond t \<le> 999999)"

text \<open>\<open>datetime(year, month, day, hour)\<close>: \<open>ValueError\<close> when a field is out of range.\<close>

definition datetime_py :: "int \<Rightarrow> int \<Rightarrow> int \<Rightarrow> int \<Rightarrow> py_exn + datetime" where
  "datetime_py y m d h =
     (let t = \<lparr>year = y, month = m, day = d, hour = h, minute = 0, second = 0, microsecond = 0\<rparr>
      in if valid_datetime t then Inr t else Inl ValueError)"

text \<open>Datetimes compare as the tuples of their fields do.\<close>

definition dt_key :: "datetime \<Rightarrow> int \<times> int \<times> int \<times> int \<times> int \<times> int \<times> int" where
  "dt_key t = (year t, month t, day t, hour t, minute t, second t, microsecond t)"

section \<open>Filename and time codec (utils.py)\<close>

text \<open>The body of the \<open>try\<close> block of \<open>parse_filename\<close>.\<close>

definition parse_filename_try :: "string \<Rightarrow> py_exn + datetime option" where
  "parse_filename_try fname =
     (if \<not> startswith fname ''MSM'' \<or> \<not> endswith fname ''S.nc'' then Inr None
      else
        let datetime_str = slice 3 13 fname in
        (case int_py (slice 0 4 datetime_str) of Inl e \<Rightarrow> Inl e | Inr y \<Rightarrow>
        (case int_py (slice 4 6 datetime_str) of Inl e \<Rightarrow> Inl e | Inr m \<Rightarrow>
        (case int_py (slice 6 8 datetime_str) of Inl e \<Rightarrow> Inl e | Inr d \<Rightarrow>
        (case int_py (slice 8 10 datetime_str) of Inl e \<Rightarrow> Inl e | Inr h \<Rightarrow>
        (case datetime_py y m d h of Inl e \<Rightarrow> Inl e | Inr t \<Rightarrow> Inr (Some t)))))))"

text \<open>\<open>except (ValueError, IndexError): return None\<close>; any other exception propagates.\<close>

definition parse_filename :: "string \<Rightarrow> py_exn + datetime option" where
  "parse_filename fname =
     (case parse_filename_try fname of
        Inl e \<Rightarrow> if e = ValueError \<or> e = IndexError then Inr None else Inl e
      | Inr r \<Rightarrow> Inr r)"

subsection \<open>Formatting\<close>

definition digit_char :: "nat \<Rightarrow> char" where
  "digit_char n = ''0123456789'' ! (n mod 10)"

function str_nat :: "nat \<Rightarrow> string" where
  "str_nat n = (if n < 10 then [digit_char n] else str_nat (n div 10) @ [digit_char (n mod 10)])"
  by pat_completeness auto
termination
  by (relation "measure id") auto

declare str_nat.simps [simp del]

text \<open>Zero padding to a width, as \<open>%02d\<close>, \<open>%m\<close>, \<open>%d\<close> and \<open>%Y\<close> (four digits) do.\<close>

definition zero_pad :: "nat \<Rightarrow> int \<Rightarrow> string" where
  "zero_pad w n = (let s = str_nat (nat n) in replicate (w - length s) CHR ''0'' @ s)"

text \<open>\<open>dt.strftime('%Y%m%d')\<close>.\<close>

definition strftime_Ymd :: "datetime \<Rightarrow> string" where
  "strftime_Ymd dt = zero_pad 4 (year dt) @ zero_pad 2 (month dt) @ zero_pad 2 (day dt)"

definition format_datetime_for_filename :: "datetime \<Rightarrow> string \<times> string" where
  "format_datetime_for_filename dt = (strftime_Ymd dt, zero_pad 2 (hour dt))"



section \<open>Configuration\<close>

text \<open>The entries of \<open>config.yaml\<close> that the downloader's logic reads.\<close>

record config =
  base_url :: string
  forecast_hours :: "int list"
  data_delay_hours :: int
  max_retries :: int
  retry_delay :: int
  request_interval :: int

section \<open>Candidate URL generator (download\_gpv.py)\<close>

subsection \<open>\<open>timedelta\<close> arithmetic\<close>

text \<open>
  \<open>t - timedelta(days=1)\<close> and \<open>t - timedelta(hours=1)\<close> on the proleptic Gregorian
  calendar; \<open>OverflowError\<close> when the result leaves the years 1 to 9999.
\<close>

definition prev_day :: "datetime \<Rightarrow> py_exn + datetime" where
  "prev_day t =
     (if 1 < day t then Inr (t\<lparr>day := day t - 1\<rparr>)
      else if 1 < month t
        then Inr (t\<lparr>month := month t - 1, day := days_in_month (year t) (month t - 1)\<rparr>)
      else if 1 < year t then Inr (t\<lparr>year := year t - 1, month := 12, day := 31\<rparr>)
      else Inl OverflowError)"

definition next_day :: "datetime \<Rightarrow> py_exn + datetime" where
  "next_day t =
     (if day t < days_in_month (year t) (month t) then Inr (t\<lparr>day := day t + 1\<rparr>)
      else if month t < 12 then Inr (t\<lparr>month := month t + 1, day := 1\<rparr>)
      else if year t < 9999 then Inr (t\<lparr>year := year t + 1, month := 1, day := 1\<rparr>)
      else Inl OverflowError)"

definition prev_hour :: "datetime \<Rightarrow> py_exn + datetime" where
  "prev_hour t =
     (if 0 < hour t then Inr (t\<lparr>hour := hour t - 1\<rparr>)
      else case prev_day t of Inl e \<Rightarrow> Inl e | Inr p \<Rightarrow> Inr (p\<lparr>hour := 23\<rparr>))"

definition next_hour :: "datetime \<Rightarrow> py_exn + datetime" where
  "next_hour t =
     (if hour t < 23 then Inr (t\<lparr>hour := hour t + 1\<rparr>)
      else case next_day t of Inl e \<Rightarrow> Inl e | Inr p \<Rightarrow> Inr (p\<lparr>hour := 0\<rparr>))"

fun back_hours :: "nat \<Rightarrow> datetime \<Rightarrow> py_exn + datetime" where
  "back_hours 0 t = Inr t"
| "back_hours (Suc n) t =
     (case back_hours n t of Inl e \<Rightarrow> Inl e | Inr t' \<Rightarrow> prev_hour t')"

fun forth_hours :: "nat \<Rightarrow> datetime \<Rightarrow> py_exn + datetime" where
  "forth_hours 0 t = Inr t"
| "forth_hours (Suc n) t =
     (case forth_hours n t of Inl e \<Rightarrow> Inl e | Inr t' \<Rightarrow> next_hour t')"

text \<open>\<open>t - timedelta(hours=k)\<close> for an integer \<open>k\<close> of either sign.\<close>

definition minus_hours :: "datetime \<Rightarrow> int \<Rightarrow> py_exn + datetime" where
  "minus_hours t k = (if 0 \<le> k then back_hours (nat k) t else forth_hours (nat (- k)) t)"

text \<open>\<open>t.replace(hour=h, minute=0, second=0, microsecond=0)\<close>.\<close>

definition replace_hour :: "datetime \<Rightarrow> int \<Rightarrow> py_exn + datetime" where
  "replace_hour t h =
     (if 0 \<le> h \<and> h \<le> 23
      then Inr (t\<lparr>hour := h, minute := 0, second := 0, microsecond := 0\<rparr>)
      else Inl ValueError)"

subsection \<open>The generator\<close>

text \<open>
  The inner \<open>for fh in reversed(forecast_hours)\<close> with its \<open>else\<close> branch; the
  first argument is the reversed list still to visit.
\<close>

fun round_to_forecast_hour :: "int list \<Rightarrow> datetime \<Rightarrow> py_exn + datetime" where
  "round_to_forecast_hour [] check_time =
     (case prev_day check_time of Inl e \<Rightarrow> Inl e | Inr p \<Rightarrow> replace_hour p 21)"
| "round_to_forecast_hour (fh # fhs) check_time =
     (if fh \<le> hour check_time then replace_hour check_time fh
      else round_to_forecast_hour fhs check_time)"

definition candidate_url :: "string \<Rightarrow> datetime \<Rightarrow> string" where
  "candidate_url base forecast_time =
     (case format_datetime_for_filename forecast_time of
        (date_str, hour_str) \<Rightarrow> base @ date_str @ ''/MSM'' @ date_str @ hour_str @ ''S.nc'')"

text \<open>The URL that iteration \<open>i\<close> of the outer loop computes.\<close>

definition candidate_at :: "config \<Rightarrow> datetime \<Rightarrow> nat \<Rightarrow> py_exn + string" where
  "candidate_at cfg current_time i =
     (case minus_hours current_time (int i * 3 + data_delay_hours cfg) of
        Inl e \<Rightarrow> Inl e
      | Inr check_time \<Rightarrow>
          (case round_to_forecast_hour (rev (forecast_hours cfg)) check_time of
             Inl e \<Rightarrow> Inl e
           | Inr forecast_time \<Rightarrow> Inr (candidate_url (base_url cfg) forecast_time)))"

fun candidates_loop :: "config \<Rightarrow> datetime \<Rightarrow> nat list \<Rightarrow> string list \<Rightarrow> py_exn + string list" where
  "candidates_loop cfg current_time [] urls = Inr urls"
| "candidates_loop cfg current_time (i # rest) urls =
     (case candidate_at cfg current_time i of
        Inl e \<Rightarrow> Inl e
      | Inr url \<Rightarrow>
          candidates_loop cfg current_time rest (if url \<in> set urls then urls else urls @ [url]))"

text \<open>
  \<open>generate_candidate_urls(config, hours_back)\<close>; \<open>current_time\<close> is what
  \<open>get_utc_now()\<close> returns.
\<close>

definition generate_candidate_urls :: "config \<Rightarrow> datetime \<Rightarrow> int \<Rightarrow> py_exn + string list" where
  "generate_candidate_urls cfg current_time hours_back =
     (let num_intervals = hours_back div 3 + 2
      in candidates_loop cfg current_time [0 ..< nat num_intervals] [])"

text \<open>\<open>url.split('/')[-1]\<close>.\<close>

definition url_filename :: "string \<Rightarrow> string" where
  "url_filename url = rev (takeWhile (\<lambda>c. c \<noteq> CHR ''/'') (rev url))"

section \<open>Remote existence prober (download\_gpv.py)\<close>

text \<open>
  What a \<open>HEAD\<close> request yields: a response with its status code and its
  \<open>Content-Length\<close> header if there is one, or a \<open>requests.RequestException\<close>.
\<close>

datatype head_outcome =
    HeadResponse int "string option"
  | HeadRequestException

text \<open>\<open>int(response.headers.get('Content-Length', 0))\<close>.\<close>

definition content_length :: "string option \<Rightarrow> py_exn + int" where
  "content_length h = (case h of None \<Rightarrow> Inr 0 | Some s \<Rightarrow> int_py s)"

definition check_file_exists :: "head_outcome \<Rightarrow> py_exn + bool \<times> int option" where
  "check_file_exists r =
     (case r of
        HeadRequestException \<Rightarrow> Inr (False, None)
      | HeadResponse status_code h \<Rightarrow>
          if status_code = 200
          then (case content_length h of
                  Inl e \<Rightarrow> Inl e
                | Inr file_size \<Rightarrow> Inr (True, Some file_size))
          else Inr (False, None))"

text \<open>What the process does to the outside world, in order.\<close>

datatype event = Probe string | Sleep int | Get string int

text \<open>
  The loop \<open>for i, url in enumerate(urls)\<close> of \<open>find_latest_file\<close>; \<open>n\<close> is
  \<open>len(urls)\<close> and \<open>remote\<close> answers the \<open>HEAD\<close> request for a URL.
\<close>

fun probe_loop ::
  "(string \<Rightarrow> head_outcome) \<Rightarrow> int \<Rightarrow> int \<Rightarrow> (nat \<times> string) list \<Rightarrow> event list
    \<Rightarrow> (py_exn + string option \<times> int option) \<times> event list" where
  "probe_loop remote interval n [] tr = (Inr (None, None), tr)"
| "probe_loop remote interval n ((i, url) # rest) tr =
     (case check_file_exists (remote url) of
        Inl e \<Rightarrow> (Inl e, tr @ [Probe url])
      | Inr (exists, file_size) \<Rightarrow>
          if exists then (Inr (Some url, file_size), tr @ [Probe url])
          else if int i < n - 1
            then probe_loop remote interval n rest (tr @ [Probe url, Sleep interval])
            else probe_loop remote interval n rest (tr @ [Probe url]))"

definition probe_candidates ::
  "config \<Rightarrow> (string \<Rightarrow> head_outcome) \<Rightarrow> string list
    \<Rightarrow> (py_exn + string option \<times> int option) \<times> event list" where
  "probe_candidates cfg remote urls =
     probe_loop remote (request_interval cfg) (int (length urls)) (enumerate 0 urls) []"

definition find_latest_file ::
  "config \<Rightarrow> datetime \<Rightarrow> (string \<Rightarrow> head_outcome)
    \<Rightarrow> (py_exn + string option \<times> int option) \<times> event list" where
  "find_latest_file cfg current_time remote =
     (case generate_candidate_urls cfg current_time 12 of
        Inl e \<Rightarrow> (Inl e, [])
      | Inr urls \<Rightarrow> probe_candidates cfg remote urls)"


section \<open>Retention reconciler (utils.py)\<close>

text \<open>
  An entry of the cache directory: its name, whether \<open>os.path.isfile\<close> holds, its bytes
  (\<open>os.path.getsize\<close> is their number) and whether \<open>os.remove\<close> succeeds on it
  (it raises \<open>OSError\<close> otherwise). A directory is the list of its entries in
  \<open>os.listdir\<close> order, or \<open>None\<close> when the path does not exist.
\<close>

record dir_entry =
  filename :: string
  is_file :: bool
  content :: string
  removable :: bool

type_synonym directory = "dir_entry list"

text \<open>The value \<open>parse_filename\<close> returns (it raises nothing, see \<open>parse_filename_total\<close>).\<close>

definition parse_filename_value :: "string \<Rightarrow> datetime option" where
  "parse_filename_value fname = (case parse_filename fname of Inr r \<Rightarrow> r | Inl e \<Rightarrow> None)"

text \<open>The first loop of \<open>cleanup_old_files\<close>: the pairs \<open>(file_datetime, filename)\<close>.\<close>

definition nc_entry :: "dir_entry \<Rightarrow> (datetime \<times> string) option" where
  "nc_entry e =
     (if \<not> endswith (filename e) ''.nc'' then None
      else if \<not> is_file e then None
      else (case parse_filename_value (filename e) of
              None \<Rightarrow> None
            | Some file_datetime \<Rightarrow> Some (file_datetime, filename e)))"

definition collect_nc_files :: "directory \<Rightarrow> (datetime \<times> string) list" where
  "collect_nc_files d = List.map_filter nc_entry d"

text \<open>
  \<open>nc_files.sort(reverse=True, key=lambda x: x[0])\<close>: a stable sort, so entries with
  equal keys keep their order.
\<close>

definition sort_newest_first :: "(datetime \<times> string) list \<Rightarrow> (datetime \<times> string) list" where
  "sort_newest_first xs = rev (sort_key (\<lambda>x. dt_key (fst x)) (rev xs))"

definition lookup_entry :: "string \<Rightarrow> directory \<Rightarrow> dir_entry option" where
  "lookup_entry fname d = find (\<lambda>e. filename e = fname) d"

definition getsize :: "dir_entry \<Rightarrow> int" where
  "getsize e = int (length (content e))"

text \<open>\<open>os.remove(path)\<close>: the directory without the entry, or \<open>OSError\<close>.\<close>

definition os_remove :: "string \<Rightarrow> directory \<Rightarrow> py_exn + directory" where
  "os_remove fname d =
     (case lookup_entry fname d of
        None \<Rightarrow> Inl OSError
      | Some e \<Rightarrow>
          if is_file e \<and> removable e then Inr (filter (\<lambda>e. filename e \<noteq> fname) d)
          else Inl OSError)"

text \<open>The deleting loop, with its \<open>try\<close> \<open>except OSError\<close> around each file.\<close>

fun delete_files ::
  "(datetime \<times> string) list \<Rightarrow> directory \<Rightarrow> int \<Rightarrow> int \<Rightarrow> directory \<times> int \<times> int" where
  "delete_files [] d deleted_count freed_bytes = (d, deleted_count, freed_bytes)"
| "delete_files ((file_datetime, fname) # rest) d deleted_count freed_bytes =
     (case lookup_entry fname d of
        None \<Rightarrow> delete_files rest d deleted_count freed_bytes
      | Some e \<Rightarrow>
          (case os_remove fname d of
             Inl err \<Rightarrow> delete_files rest d deleted_count freed_bytes
           | Inr d' \<Rightarrow> delete_files rest d' (deleted_count + 1) (freed_bytes + getsize e)))"

definition cleanup_old_files :: "directory option \<Rightarrow> bool \<Rightarrow> directory option \<times> int \<times> int" where
  "cleanup_old_files dir keep_latest =
     (case dir of
        None \<Rightarrow> (None, 0, 0)
      | Some d \<Rightarrow>
          let nc_files = collect_nc_files d in
          if nc_files = [] then (Some d, 0, 0)
          else
            let sorted_files = sort_newest_first nc_files;
                files_to_delete = (if keep_latest then drop 1 sorted_files else sorted_files)
            in (case delete_files files_to_delete d 0 0 of
                  (d', deleted_count, freed_bytes) \<Rightarrow> (Some d', deleted_count, freed_bytes)))"

section \<open>Resilient fetcher (download\_gpv.py)\<close>

text \<open>
  What one attempt meets. \<open>requests.get\<close> or \<open>raise_for_status\<close> raise, or a response
  arrives: its \<open>Content-Length\<close> header, the answer of \<open>check_disk_space\<close>, whether
  \<open>open(save_path, 'wb')\<close> succeeds, the chunks that reach the file, and how the
  streaming ends.
\<close>

datatype stream_end = StreamComplete | StreamTimeout | StreamNetworkError | StreamOSError

datatype attempt =
    GetTimeout
  | GetNetworkError
  | GetHTTPError
  | GetResponse "string option" bool bool "string list" stream_end

text \<open>How one round of the retry loop ends.\<close>

datatype attempt_result = Returned bool | Raised py_exn | Continue

text \<open>\<open>open(save_path, 'wb')\<close> creates the file or truncates it.\<close>

definition open_wb :: "string \<Rightarrow> bool \<Rightarrow> directory \<Rightarrow> py_exn + directory" where
  "open_wb fname open_ok d =
     (if \<not> open_ok then Inl OSError
      else (case lookup_entry fname d of
              None \<Rightarrow>
                Inr (d @ [\<lparr>filename = fname, is_file = True, content = [], removable = True\<rparr>])
            | Some e \<Rightarrow>
                if is_file e
                then Inr (map (\<lambda>x. if filename x = fname then x\<lparr>content := []\<rparr> else x) d)
                else Inl OSError))"

definition write_chunk :: "string \<Rightarrow> string \<Rightarrow> directory \<Rightarrow> directory" where
  "write_chunk fname chunk d =
     map (\<lambda>x. if filename x = fname then x\<lparr>content := content x @ chunk\<rparr> else x) d"

fun write_chunks :: "string \<Rightarrow> string list \<Rightarrow> directory \<Rightarrow> directory" where
  "write_chunks fname [] d = d"
| "write_chunks fname (chunk # rest) d =
     (if chunk \<noteq> [] then write_chunks fname rest (write_chunk fname chunk d)
      else write_chunks fname rest d)"

definition path_exists :: "string \<Rightarrow> directory \<Rightarrow> bool" where
  "path_exists fname d = (lookup_entry fname d \<noteq> None)"

definition getsize_path :: "string \<Rightarrow> directory \<Rightarrow> py_exn + int" where
  "getsize_path fname d =
     (case lookup_entry fname d of None \<Rightarrow> Inl OSError | Some e \<Rightarrow> Inr (getsize e))"

text \<open>The code after the \<open>except\<close> clauses (\<open>time.sleep\<close> changes no state).\<close>

definition retry_logic :: "config \<Rightarrow> string \<Rightarrow> int \<Rightarrow> directory \<Rightarrow> attempt_result \<times> directory" where
  "retry_logic cfg fname attempt_no d =
     (if attempt_no < max_retries cfg then (Continue, d)
      else if path_exists fname d
        then (case os_remove fname d of
                Inl e \<Rightarrow> (Raised e, d)
              | Inr d' \<Rightarrow> (Returned False, d'))
        else (Returned False, d))"

text \<open>The size check after the \<open>with\<close> block; an \<open>OSError\<close> in it is caught.\<close>

definition verify_size :: "config \<Rightarrow> string \<Rightarrow> int \<Rightarrow> int \<Rightarrow> directory \<Rightarrow> attempt_result \<times> directory" where
  "verify_size cfg fname attempt_no total_size d =
     (case getsize_path fname d of
        Inl e \<Rightarrow> (Returned False, d)
      | Inr downloaded_size \<Rightarrow>
          if 0 < total_size \<and> downloaded_size \<noteq> total_size then
            (if attempt_no < max_retries cfg
             then (case os_remove fname d of
                     Inl e \<Rightarrow> (Returned False, d)
                   | Inr d' \<Rightarrow> (Continue, d'))
             else (Returned False, d))
          else (Returned True, d))"

text \<open>One round of \<open>for attempt in range(1, max_retries + 1)\<close>.\<close>

definition download_attempt ::
  "config \<Rightarrow> attempt \<Rightarrow> string \<Rightarrow> int \<Rightarrow> directory \<Rightarrow> attempt_result \<times> directory" where
  "download_attempt cfg outcome fname attempt_no d =
     (case outcome of
        GetTimeout \<Rightarrow> retry_logic cfg fname attempt_no d
      | GetNetworkError \<Rightarrow> retry_logic cfg fname attempt_no d
      | GetHTTPError \<Rightarrow> (Returned False, d)
      | GetResponse header disk_ok open_ok chunks ending \<Rightarrow>
          (case content_length header of
             Inl e \<Rightarrow> (Raised e, d)
           | Inr total_size \<Rightarrow>
               if \<not> disk_ok then (Returned False, d)
               else (case open_wb fname open_ok d of
                       Inl e \<Rightarrow> (Returned False, d)
                     | Inr d1 \<Rightarrow>
                         let d2 = write_chunks fname chunks d1 in
                         (case ending of
                            StreamComplete \<Rightarrow> verify_size cfg fname attempt_no total_size d2
                          | StreamTimeout \<Rightarrow> retry_logic cfg fname attempt_no d2
                          | StreamNetworkError \<Rightarrow> retry_logic cfg fname attempt_no d2
                          | StreamOSError \<Rightarrow> (Returned False, d2)))))"

text \<open>
  The retry loop over the attempt numbers still to run; \<open>net\<close> tells what attempt
  number \<open>n\<close> meets. Each round is recorded as a \<open>Get\<close> event.
\<close>

fun download_loop ::
  "config \<Rightarrow> (int \<Rightarrow> attempt) \<Rightarrow> string \<Rightarrow> string \<Rightarrow> int list \<Rightarrow> directory \<Rightarrow> event list
    \<Rightarrow> (py_exn + bool) \<times> directory \<times> event list" where
  "download_loop cfg net url fname [] d tr = (Inr False, d, tr)"
| "download_loop cfg net url fname (attempt_no # rest) d tr =
     (case download_attempt cfg (net attempt_no) fname attempt_no d of
        (Continue, d') \<Rightarrow> download_loop cfg net url fname rest d' (tr @ [Get url attempt_no])
      | (Returned b, d') \<Rightarrow> (Inr b, d', tr @ [Get url attempt_no])
      | (Raised e, d') \<Rightarrow> (Inl e, d', tr @ [Get url attempt_no]))"

text \<open>
  \<open>download_file(url, save_path, config)\<close>, where \<open>save_path\<close> is the entry \<open>fname\<close>
  of the directory \<open>d\<close>.
\<close>

definition download_file ::
  "config \<Rightarrow> (int \<Rightarrow> attempt) \<Rightarrow> string \<Rightarrow> string \<Rightarrow> directory
    \<Rightarrow> (py_exn + bool) \<times> directory \<times> event list" where
  "download_file cfg net url fname d =
     download_loop cfg net url fname [1 .. max_retries cfg] d []"


section \<open>Automatic download (download\_gpv.py)\<close>

text \<open>A line of the download log: the file name with the size, or with the error message.\<close>

datatype log_line = LogSuccess string int | LogFailed string string

text \<open>\<open>ensure_directory\<close>: the directory exists afterwards.\<close>

definition ensure_directory :: "directory option \<Rightarrow> directory" where
  "ensure_directory dir = (case dir of None \<Rightarrow> [] | Some d \<Rightarrow> d)"

text \<open>\<open>cleanup_old_files\<close> on a directory that exists; the directory itself stays.\<close>

definition cleanup_existing :: "directory \<Rightarrow> bool \<Rightarrow> directory \<times> int \<times> int" where
  "cleanup_existing d keep_latest =
     (case cleanup_old_files (Some d) keep_latest of
        (Some d', deleted_count, freed_bytes) \<Rightarrow> (d', deleted_count, freed_bytes)
      | (None, deleted_count, freed_bytes) \<Rightarrow> (d, deleted_count, freed_bytes))"

text \<open>The part of \<open>download_auto\<close> after the file was found not to be there already.\<close>

definition fetch_and_reconcile ::
  "config \<Rightarrow> (int \<Rightarrow> attempt) \<Rightarrow> string \<Rightarrow> string \<Rightarrow> directory \<Rightarrow> event list
    \<Rightarrow> (py_exn + bool) \<times> directory option \<times> event list \<times> log_line list" where
  "fetch_and_reconcile cfg net url fname d tr =
     (case cleanup_existing d False of
        (d1, deleted_count, freed_bytes) \<Rightarrow>
          (case download_file cfg net url fname d1 of
             (Inl e, d2, tr2) \<Rightarrow> (Inl e, Some d2, tr @ tr2, [])
           | (Inr success, d2, tr2) \<Rightarrow>
               if success then
                 (case cleanup_existing d2 True of
                    (d3, deleted_count', freed_bytes') \<Rightarrow>
                      (case getsize_path fname d3 of
                         Inl e \<Rightarrow> (Inl e, Some d3, tr @ tr2, [])
                       | Inr downloaded_size \<Rightarrow>
                           (Inr True, Some d3, tr @ tr2, [LogSuccess fname downloaded_size])))
               else (Inr False, Some d2, tr @ tr2, [LogFailed fname ''Download failed''])))"

text \<open>
  \<open>download_auto(config)\<close>: \<open>current_time\<close> is the clock, \<open>remote\<close> answers the
  \<open>HEAD\<close> requests, \<open>net\<close> tells what each download attempt meets, and \<open>dir\<close> is
  the cache directory \<open>raw_data_dir\<close>. The result comes with the cache directory, the
  requests made and the lines appended to the log.
\<close>

definition download_auto ::
  "config \<Rightarrow> datetime \<Rightarrow> (string \<Rightarrow> head_outcome) \<Rightarrow> (int \<Rightarrow> attempt) \<Rightarrow> directory option
    \<Rightarrow> (py_exn + bool) \<times> directory option \<times> event list \<times> log_line list" where
  "download_auto cfg current_time remote net dir =
     (case find_latest_file cfg current_time remote of
        (Inl e, tr) \<Rightarrow> (Inl e, dir, tr, [])
      | (Inr (None, file_size), tr) \<Rightarrow> (Inr False, dir, tr, [])
      | (Inr (Some url, file_size), tr) \<Rightarrow>
          if url = [] then (Inr False, dir, tr, [])
          else
            let fname = url_filename url;
                d = ensure_directory dir
            in (case lookup_entry fname d of
                  None \<Rightarrow> fetch_and_reconcile cfg net url fname d tr
                | Some e \<Rightarrow>
                    if Some (getsize e) = file_size
                    then (case cleanup_existing d True of
                            (d', deleted_count, freed_bytes) \<Rightarrow> (Inr True, Some d', tr, []))
                    else fetch_and_reconcile cfg net url fname d tr))"

section \<open>Temporal frame selector (generate\_cloud\_gif.py)\<close>

text \<open>
  A \<open>pandas.Timestamp\<close> with a time zone: the instant on the UTC time line and the
  offset of the zone, both in nanoseconds. A naive timestamp and an entry of the
  time axis are wall-clock readings, plain integers.
\<close>

record timestamp =
  instant :: int
  utc_offset :: int

definition hours_ns :: "int \<Rightarrow> int" where
  "hours_ns h = h * 3600 * 1000000000"

text \<open>\<open>pd.Timestamp.now(tz='Asia/Tokyo')\<close> when the clock shows the instant \<open>clock\<close>.\<close>

definition timestamp_now_tokyo :: "int \<Rightarrow> timestamp" where
  "timestamp_now_tokyo clock = \<lparr>instant = clock, utc_offset = hours_ns 9\<rparr>"

definition tz_convert_utc :: "timestamp \<Rightarrow> timestamp" where
  "tz_convert_utc ts = ts\<lparr>utc_offset := 0\<rparr>"

definition tz_localize_none :: "timestamp \<Rightarrow> int" where
  "tz_localize_none ts = instant ts + utc_offset ts"

definition current_time_utc :: "int \<Rightarrow> int" where
  "current_time_utc clock = tz_localize_none (tz_convert_utc (timestamp_now_tokyo clock))"

text \<open>\<open>region.isel(time=future_mask)\<close>: the entries where the mask holds.\<close>

definition isel :: "'a list \<Rightarrow> bool list \<Rightarrow> 'a list" where
  "isel xs future_mask = map fst (filter snd (zip xs future_mask))"

text \<open>
  The time filter of \<open>generate_cloud_gifs\<close>: the time axis that is kept and the
  warnings printed.
\<close>

definition select_time_steps :: "int \<Rightarrow> int list \<Rightarrow> int list \<times> string list" where
  "select_time_steps clock time_values =
     (let now_utc = current_time_utc clock in
      if 0 < length time_values then
        let future_mask = map (\<lambda>t. now_utc \<le> t) time_values in
        if 0 < length (filter id future_mask) then (isel time_values future_mask, [])
        else (time_values, [''Warning: No future time steps found. Using all available data.''])
      else (time_values, [''Warning: No time data available.'']))"

section \<open>Animation encoder (generate\_cloud\_gif.py)\<close>

record gif_config =
  name :: string
  gif_filename :: string
  layers :: "string list"

definition gif_configs :: "gif_config list" where
  "gif_configs =
     [\<lparr>name = ''all_layers'', gif_filename = ''cloud_all_layers.gif'',
        layers = [''low'', ''mid'', ''upper'']\<rparr>,
      \<lparr>name = ''low_only'', gif_filename = ''cloud_low_only.gif'', layers = [''low'']\<rparr>,
      \<lparr>name = ''mid_only'', gif_filename = ''cloud_mid_only.gif'', layers = [''mid'']\<rparr>,
      \<lparr>name = ''upper_only'', gif_filename = ''cloud_upper_only.gif'', layers = [''upper'']\<rparr>]"

text \<open>
  The files the encoder touches: the directories that exist under the working
  directory, each with the names of its files, and the GIFs written, each with the
  frames it was composed of.
\<close>

record render_fs =
  dirs :: "string \<rightharpoonup> string list"
  gifs :: "string \<rightharpoonup> string list"

text \<open>\<open>os.makedirs(temp_dir, exist_ok=True)\<close>.\<close>

definition makedirs :: "string \<Rightarrow> render_fs \<Rightarrow> render_fs" where
  "makedirs path fs =
     (case dirs fs path of
        None \<Rightarrow> fs\<lparr>dirs := (dirs fs)(path \<mapsto> [])\<rparr>
      | Some files \<Rightarrow> fs)"

text \<open>\<open>plt.savefig\<close> of one frame into a directory that exists.\<close>

definition savefig :: "string \<Rightarrow> string \<Rightarrow> render_fs \<Rightarrow> render_fs" where
  "savefig path file fs =
     (case dirs fs path of
        None \<Rightarrow> fs
      | Some files \<Rightarrow>
          if file \<in> set files then fs else fs\<lparr>dirs := (dirs fs)(path \<mapsto> files @ [file])\<rparr>)"

definition frame_name :: "nat \<Rightarrow> string" where
  "frame_name t_idx = ''cloud_'' @ zero_pad 3 (int t_idx) @ ''.png''"

fun render_frames :: "string \<Rightarrow> nat list \<Rightarrow> render_fs \<Rightarrow> render_fs" where
  "render_frames temp_dir [] fs = fs"
| "render_frames temp_dir (t_idx # rest) fs =
     render_frames temp_dir rest (savefig temp_dir (frame_name t_idx) fs)"

text \<open>\<open>sorted(glob.glob(f'{temp_dir}/cloud_*.png'))\<close>.\<close>

definition glob_frames :: "string \<Rightarrow> render_fs \<Rightarrow> string list" where
  "glob_frames temp_dir fs =
     (case dirs fs temp_dir of
        None \<Rightarrow> []
      | Some files \<Rightarrow>
          sort (map (\<lambda>f. temp_dir @ ''/'' @ f)
            (filter (\<lambda>f. startswith f ''cloud_'' \<and> endswith f ''.png'' \<and> 10 \<le> length f) files)))"

text \<open>\<open>images[0].save(output_path, append_images=images[1:], ...)\<close>.\<close>

definition save_gif :: "string list \<Rightarrow> string \<Rightarrow> render_fs \<Rightarrow> py_exn + render_fs" where
  "save_gif images output_path fs =
     (case images of
        [] \<Rightarrow> Inl IndexError
      | first # others \<Rightarrow> Inr (fs\<lparr>gifs := (gifs fs)(output_path \<mapsto> first # others)\<rparr>))"

definition rmtree :: "string \<Rightarrow> render_fs \<Rightarrow> render_fs" where
  "rmtree path fs = fs\<lparr>dirs := (dirs fs)(path := None)\<rparr>"

definition path_join :: "string \<Rightarrow> string \<Rightarrow> string" where
  "path_join a b =
     (if startswith b ''/'' then b
      else if a = [] \<or> endswith a ''/'' then a @ b
      else a @ ''/'' @ b)"

text \<open>
  One round of the loop over \<open>gif_configs\<close>, for a time axis of \<open>n\<close> steps: the path
  of the GIF, or the exception that ends \<open>generate_cloud_gifs\<close>.
\<close>

definition generate_variant ::
  "string \<Rightarrow> nat \<Rightarrow> gif_config \<Rightarrow> render_fs \<Rightarrow> (py_exn + string) \<times> render_fs" where
  "generate_variant output_dir n cfg fs =
     (let temp_dir = ''cloud_temp_'' @ name cfg;
          fs1 = makedirs temp_dir fs;
          fs2 = render_frames temp_dir [0 ..< n] fs1;
          images = glob_frames temp_dir fs2;
          output_path = path_join output_dir (gif_filename cfg)
      in (case save_gif images output_path fs2 of
            Inl e \<Rightarrow> (Inl e, fs2)
          | Inr fs3 \<Rightarrow> (Inr output_path, rmtree temp_dir fs3)))"

fun variants_loop ::
  "string \<Rightarrow> nat \<Rightarrow> gif_config list \<Rightarrow> (string \<times> string) list \<Rightarrow> render_fs
    \<Rightarrow> (py_exn + (string \<times> string) list) \<times> render_fs" where
  "variants_loop output_dir n [] generated_files fs = (Inr generated_files, fs)"
| "variants_loop output_dir n (cfg # rest) generated_files fs =
     (case generate_variant output_dir n cfg fs of
        (Inl e, fs') \<Rightarrow> (Inl e, fs')
      | (Inr output_path, fs') \<Rightarrow>
          variants_loop output_dir n rest (generated_files @ [(name cfg, output_path)]) fs')"

text \<open>
  \<open>generate_cloud_gifs\<close> from the time filter on: \<open>time_values\<close> is the time axis of the
  clipped dataset.
\<close>

definition generate_cloud_gifs ::
  "int \<Rightarrow> int list \<Rightarrow> string \<Rightarrow> render_fs \<Rightarrow> (py_exn + (string \<times> string) list) \<times> render_fs" where
  "generate_cloud_gifs clock time_values output_dir fs =
     (case select_time_steps clock time_values of
        (kept, warnings) \<Rightarrow>
          variants_loop output_dir (length kept) gif_configs [] (makedirs output_dir fs))"


section \<open>Properties of the codec\<close>

subsection \<open>Decimal formatting and \<open>int\<close>\<close>

lemma digit_char_cases:
  "digit_char n \<in> set ''0123456789''"
  unfolding digit_char_def by (rule nth_mem) simp

lemma lt10_cases:
  fixes n :: nat
  assumes "n < 10"
  obtains "n = 0" | "n = 1" | "n = 2" | "n = 3" | "n = 4"
    | "n = 5" | "n = 6" | "n = 7" | "n = 8" | "n = 9"
  using assms by (auto simp: less_Suc_eq eval_nat_numeral)

lemma digit_val_digit_char: "n < 10 \<Longrightarrow> digit_val (digit_char n) = Some n"
  by (erule lt10_cases) (simp_all add: digit_val_def digit_char_def)

lemma digit_char_not_space: "\<not> is_space (digit_char n)"
  using digit_char_cases [of n] by (auto simp: is_space_def)

lemma digit_char_not_sign:
  "digit_char n \<noteq> CHR ''+''" "digit_char n \<noteq> CHR ''-''"
  "digit_char n \<noteq> CHR ''_''" "digit_char n \<noteq> CHR ''/''"
  using digit_char_cases [of n] by auto

lemma str_nat_1: "n < 10 \<Longrightarrow> str_nat n = [digit_char n]"
  by (simp add: str_nat.simps)

lemma str_nat_2: "10 \<le> n \<Longrightarrow> n < 100 \<Longrightarrow> str_nat n = [digit_char (n div 10), digit_char (n mod 10)]"
  by (subst str_nat.simps) (simp add: str_nat_1)

lemma str_nat_3: "100 \<le> n \<Longrightarrow> n < 1000 \<Longrightarrow>
  str_nat n = [digit_char (n div 100), digit_char (n div 10 mod 10), digit_char (n mod 10)]"
  by (subst str_nat.simps) (simp add: str_nat_2 div_mult2_eq[symmetric])

lemma str_nat_4: "1000 \<le> n \<Longrightarrow> n < 10000 \<Longrightarrow>
  str_nat n = [digit_char (n div 1000), digit_char (n div 100 mod 10), digit_char (n div 10 mod 10), digit_char (n mod 10)]"
  by (subst str_nat.simps) (simp add: str_nat_3 div_mult2_eq[symmetric])

lemma digit_char_0: "digit_char 0 = CHR ''0''"
  by (simp add: digit_char_def)

lemma zero_pad_2: "0 \<le> n \<Longrightarrow> n < 100 \<Longrightarrow>
  zero_pad 2 n = [digit_char (nat n div 10), digit_char (nat n mod 10)]"
  by (cases "nat n < 10") (simp_all add: zero_pad_def str_nat_1 str_nat_2 digit_char_0)

lemma replicate_zeros:
  "replicate (Suc 0) c = [c]" "replicate 2 c = [c, c]" "replicate 3 c = [c, c, c]"
  by (simp_all add: numeral_2_eq_2 numeral_3_eq_3)

lemma zero_pad_4_nat:
  assumes "m < 10000"
  shows "replicate (4 - length (str_nat m)) CHR ''0'' @ str_nat m =
    [digit_char (m div 1000), digit_char (m div 100 mod 10),
     digit_char (m div 10 mod 10), digit_char (m mod 10)]"
proof -
  consider "m < 10" | "10 \<le> m \<and> m < 100" | "100 \<le> m \<and> m < 1000" | "1000 \<le> m \<and> m < 10000"
    using assms by linarith
  then show ?thesis
  proof cases
    case 1
    have d: "m div 1000 = 0" "m div 100 = 0" "m div 10 = 0" "m mod 10 = m"
      using 1 by (simp_all add: div_less)
    have s: "str_nat m = [digit_char m]" using 1 by (rule str_nat_1)
    show ?thesis unfolding s d by (simp add: digit_char_0 replicate_zeros)
  next
    case 2
    have "m div 10 < 10" using 2 by (simp add: less_mult_imp_div_less)
    then have d: "m div 1000 = 0" "m div 100 = 0" "m div 10 mod 10 = m div 10"
      using 2 by (simp_all add: div_less)
    have s: "str_nat m = [digit_char (m div 10), digit_char (m mod 10)]"
      using 2 by (simp add: str_nat_2)
    show ?thesis unfolding s d by (simp add: digit_char_0 replicate_zeros)
  next
    case 3
    have "m div 100 < 10" using 3 by (simp add: less_mult_imp_div_less)
    then have d: "m div 1000 = 0" "m div 100 mod 10 = m div 100"
      using 3 by (simp_all add: div_less)
    have s: "str_nat m = [digit_char (m div 100), digit_char (m div 10 mod 10), digit_char (m mod 10)]"
      using 3 by (simp add: str_nat_3)
    show ?thesis unfolding s d by (simp add: digit_char_0 replicate_zeros)
  next
    case 4
    have s: "str_nat m = [digit_char (m div 1000), digit_char (m div 100 mod 10),
      digit_char (m div 10 mod 10), digit_char (m mod 10)]"
      using 4 by (simp add: str_nat_4)
    show ?thesis unfolding s by simp
  qed
qed

lemma zero_pad_4: "0 \<le> n \<Longrightarrow> n < 10000 \<Longrightarrow>
  zero_pad 4 n = [digit_char (nat n div 1000), digit_char (nat n div 100 mod 10),
                  digit_char (nat n div 10 mod 10), digit_char (nat n mod 10)]"
  unfolding zero_pad_def Let_def by (rule zero_pad_4_nat) simp

lemma int_py_2: "a < 10 \<Longrightarrow> b < 10 \<Longrightarrow> int_py [digit_char a, digit_char b] = Inr (int (10 * a + b))"
  by (simp add: int_py_def strip_def digit_char_not_space digit_char_not_sign parse_unsigned_def digit_val_digit_char)

lemma int_py_4: "a < 10 \<Longrightarrow> b < 10 \<Longrightarrow> c < 10 \<Longrightarrow> d < 10 \<Longrightarrow>
  int_py [digit_char a, digit_char b, digit_char c, digit_char d] = Inr (int (1000 * a + 100 * b + 10 * c + d))"
  by (simp add: int_py_def strip_def digit_char_not_space digit_char_not_sign parse_unsigned_def digit_val_digit_char)

lemma int_py_pad2: "0 \<le> n \<Longrightarrow> n < 100 \<Longrightarrow> int_py (zero_pad 2 n) = Inr n"
  by (simp add: zero_pad_2 int_py_2)

lemma decimal_digits_4:
  fixes m :: nat
  shows "1000 * (m div 1000) + 100 * (m div 100 mod 10) + 10 * (m div 10 mod 10) + m mod 10
    = m + 10000 * (m div 10000) - 10000 * (m div 10000)"
proof -
  define q1 where "q1 = m div 10"
  define q2 where "q2 = m div 100"
  define q3 where "q3 = m div 1000"
  have e2: "q1 div 10 = q2" by (simp add: q1_def q2_def div_mult2_eq[symmetric])
  have e3: "q2 div 10 = q3" by (simp add: q2_def q3_def div_mult2_eq[symmetric])
  have a: "10 * q1 + m mod 10 = m" unfolding q1_def by (rule mult_div_mod_eq)
  have b: "10 * q2 + q1 mod 10 = q1" unfolding e2[symmetric] by (rule mult_div_mod_eq)
  have c: "10 * q3 + q2 mod 10 = q2" unfolding e3[symmetric] by (rule mult_div_mod_eq)
  define r1 where "r1 = q1 mod 10"
  define r2 where "r2 = q2 mod 10"
  define r0 where "r0 = m mod 10"
  have "1000 * q3 + 100 * r2 + 10 * r1 + r0 = m"
    using a b c unfolding r1_def[symmetric] r2_def[symmetric] r0_def[symmetric] by linarith
  then show ?thesis
    unfolding r1_def r2_def r0_def q1_def q2_def q3_def by simp
qed

lemma int_py_pad4: "0 \<le> n \<Longrightarrow> n < 10000 \<Longrightarrow> int_py (zero_pad 4 n) = Inr n"
proof -
  assume a: "0 \<le> n" "n < 10000"
  have lt: "nat n div 1000 < 10" "nat n div 100 mod 10 < 10" "nat n div 10 mod 10 < 10" "nat n mod 10 < 10"
    using a by (simp_all add: less_mult_imp_div_less)
  have "int (1000 * (nat n div 1000) + 100 * (nat n div 100 mod 10) + 10 * (nat n div 10 mod 10) + nat n mod 10) = int (nat n)"
    by (simp only: decimal_digits_4)
  then show ?thesis
    using a by (simp only: zero_pad_4 int_py_4[OF lt]) simp
qed

lemma length_zero_pad_2: "0 \<le> n \<Longrightarrow> n < 100 \<Longrightarrow> length (zero_pad 2 n) = 2"
  by (simp add: zero_pad_2)

lemma length_zero_pad_4: "0 \<le> n \<Longrightarrow> n < 10000 \<Longrightarrow> length (zero_pad 4 n) = 4"
  by (simp add: zero_pad_4)

section \<open>Properties of the temporal frame selector\<close>

lemma isel_map: "isel xs (map P xs) = filter P xs"
  by (induction xs) (simp_all add: isel_def)

lemma filter_id_map_nonempty:
  "(0 < length (filter id (map P xs))) = (\<exists>x\<in>set xs. P x)"
  "(filter id (map P xs) \<noteq> []) = (\<exists>x\<in>set xs. P x)"
  "(filter id (map P xs) = []) = (\<forall>x\<in>set xs. \<not> P x)"
  by (simp_all add: filter_empty_conv)

lemma current_time_utc_clock: "current_time_utc clock = clock"
  by (simp add: current_time_utc_def tz_localize_none_def tz_convert_utc_def timestamp_now_tokyo_def)

text \<open>
  Claim C5. The time filter keeps exactly the entries of the time axis that are at or
  after the current instant, which is the Tokyo clock converted to UTC; when no entry
  qualifies it keeps the whole axis and prints a warning. For the axis
  \<open>[t - 3h, t, t + 3h, t + 6h]\<close> and the clock at \<open>t + 1h\<close> it keeps \<open>[t + 3h, t + 6h]\<close>.
\<close>

theorem select_time_steps_future:
  "((\<exists>t\<in>set time_values. current_time_utc clock \<le> t) \<longrightarrow>
      select_time_steps clock time_values =
        (filter (\<lambda>t. current_time_utc clock \<le> t) time_values, [])) \<and>
   (\<not> (\<exists>t\<in>set time_values. current_time_utc clock \<le> t) \<longrightarrow>
      fst (select_time_steps clock time_values) = time_values \<and>
      snd (select_time_steps clock time_values) \<noteq> []) \<and>
   current_time_utc clock = clock \<and>
   select_time_steps (t + hours_ns 1) [t - hours_ns 3, t, t + hours_ns 3, t + hours_ns 6] =
     ([t + hours_ns 3, t + hours_ns 6], [])"
proof (intro conjI impI)
  assume "\<exists>t\<in>set time_values. current_time_utc clock \<le> t"
  moreover from this have "time_values \<noteq> []" by auto
  ultimately show "select_time_steps clock time_values =
        (filter (\<lambda>t. current_time_utc clock \<le> t) time_values, [])"
    by (simp add: select_time_steps_def Let_def isel_map filter_id_map_nonempty)
next
  assume n: "\<not> (\<exists>t\<in>set time_values. current_time_utc clock \<le> t)"
  then show "fst (select_time_steps clock time_values) = time_values"
    by (simp add: select_time_steps_def Let_def filter_id_map_nonempty)
  from n show "snd (select_time_steps clock time_values) \<noteq> []"
    by (simp add: select_time_steps_def Let_def filter_id_map_nonempty)
next
  show "current_time_utc clock = clock" by (rule current_time_utc_clock)
next
  show "select_time_steps (t + hours_ns 1) [t - hours_ns 3, t, t + hours_ns 3, t + hours_ns 6] =
     ([t + hours_ns 3, t + hours_ns 6], [])"
    by (simp add: select_time_steps_def Let_def isel_def current_time_utc_clock hours_ns_def)
qed

theorem select_time_steps_future_witness:
  "(\<exists>t\<in>set [97, 100, 103, 106 :: int]. current_time_utc 101 \<le> t) \<and>
   select_time_steps 101 [97, 100, 103, 106] = ([103, 106], []) \<and>
   \<not> (\<exists>t\<in>set [97, 100, 103, 106 :: int]. current_time_utc 107 \<le> t) \<and>
   fst (select_time_steps 107 [97, 100, 103, 106]) = [97, 100, 103, 106] \<and>
   snd (select_time_steps 107 [97, 100, 103, 106]) \<noteq> []"
  using select_time_steps_future [of "[97, 100, 103, 106]" 101 0]
        select_time_steps_future [of "[97, 100, 103, 106]" 107 0]
  by (simp add: current_time_utc_clock)

section \<open>Properties of the remote existence prober\<close>

text \<open>
  A response with status 204 and a \<open>Content-Length\<close> header is reported as not found,
  and a response with status 200 without the header is reported as found with size 0.
\<close>

theorem check_file_exists_counterexample:
  "check_file_exists (HeadResponse 204 (Some ''10'')) = Inr (False, None) \<and>
   check_file_exists (HeadResponse 200 None) = Inr (True, Some 0)"
  by (simp add: check_file_exists_def content_length_def)

text \<open>
  Claim C7, amended. \<open>check_file_exists\<close> returns \<open>(True, n)\<close> exactly when the
  \<open>HEAD\<close> request yields status 200 and \<open>int\<close> of the \<open>Content-Length\<close> header is
  \<open>n\<close>, a missing header counting as 0; it returns \<open>(False, None)\<close> exactly for a
  response with any other status code and for a \<open>RequestException\<close>; with status 200
  and a header that \<open>int\<close> rejects, the \<open>ValueError\<close> propagates.
\<close>

theorem check_file_exists_status_200:
  "(check_file_exists r = Inr (True, Some n) \<longleftrightarrow>
      (\<exists>h. r = HeadResponse 200 h \<and> content_length h = Inr n)) \<and>
   (check_file_exists r = Inr (False, None) \<longleftrightarrow>
      r = HeadRequestException \<or> (\<exists>sc h. r = HeadResponse sc h \<and> sc \<noteq> 200)) \<and>
   (check_file_exists r = Inl e \<longleftrightarrow>
      (\<exists>h. r = HeadResponse 200 h \<and> content_length h = Inl e)) \<and>
   content_length None = Inr 0"
  by (cases r) (auto simp: check_file_exists_def content_length_def split: sum.splits)

theorem check_file_exists_status_200_witness:
  "check_file_exists (HeadResponse 200 (Some ''189''))  = Inr (True, Some 189) \<and>
   check_file_exists (HeadResponse 404 None) = Inr (False, None) \<and>
   check_file_exists HeadRequestException = Inr (False, None) \<and>
   check_file_exists (HeadResponse 200 (Some ''abc'')) = Inl ValueError"
proof -
  have a: "content_length (Some ''189'') = Inr 189"
    by (simp add: content_length_def int_py_def strip_def is_space_def parse_unsigned_def digit_val_def)
  have b: "content_length (Some ''abc'') = Inl ValueError"
    by (simp add: content_length_def int_py_def strip_def is_space_def parse_unsigned_def digit_val_def)
  show ?thesis
    using check_file_exists_status_200 [of "HeadResponse 200 (Some ''189'')" 189 ValueError]
          check_file_exists_status_200 [of "HeadResponse 404 None" 0 ValueError]
          check_file_exists_status_200 [of "HeadRequestException" 0 ValueError]
          check_file_exists_status_200 [of "HeadResponse 200 (Some ''abc'')" 0 ValueError]
          a b
    by simp
qed

lemma probe_loop_misses:
  assumes "\<forall>p\<in>set pre. \<exists>sz. check_file_exists (remote p) = Inr (False, sz)"
    and "int k + int (length pre) < n"
  shows "probe_loop remote iv n (enumerate k (pre @ rest)) tr =
         probe_loop remote iv n (enumerate (k + length pre) rest)
           (tr @ concat (map (\<lambda>p. [Probe p, Sleep iv]) pre))"
  using assms
proof (induction pre arbitrary: k tr)
  case Nil
  then show ?case by simp
next
  case (Cons p pre)
  obtain sz where miss: "check_file_exists (remote p) = Inr (False, sz)"
    using Cons.prems(1) by auto
  have lt: "int k < n - 1" using Cons.prems(2) by simp
  have "probe_loop remote iv n (enumerate (Suc k) (pre @ rest)) (tr @ [Probe p, Sleep iv]) =
        probe_loop remote iv n (enumerate (Suc k + length pre) rest)
          ((tr @ [Probe p, Sleep iv]) @ concat (map (\<lambda>p. [Probe p, Sleep iv]) pre))"
    using Cons.prems by (intro Cons.IH) auto
  with miss lt show ?case by simp
qed

text \<open>
  Claim C8. \<open>find_latest_file\<close> probes the generated candidates in order. When the
  candidates before \<open>u\<close> are all reported missing and \<open>u\<close> exists, it returns
  \<open>u\<close> with its size, having probed nothing after \<open>u\<close> and slept once after each
  earlier probe. When every candidate is missing it returns \<open>(None, None)\<close>, having
  slept after every probe but the last. With three candidates of which only the second
  exists there is exactly one sleep, between the first probe and the second.
\<close>

theorem find_latest_file_first_hit:
  "((\<forall>p\<in>set pre. \<exists>s. check_file_exists (remote p) = Inr (False, s)) \<longrightarrow>
    check_file_exists (remote u) = Inr (True, sz) \<longrightarrow>
      probe_candidates cfg remote (pre @ u # post) =
        (Inr (Some u, sz),
         concat (map (\<lambda>p. [Probe p, Sleep (request_interval cfg)]) pre) @ [Probe u])) \<and>
   ((\<forall>p\<in>set (pre @ [l]). \<exists>s. check_file_exists (remote p) = Inr (False, s)) \<longrightarrow>
      probe_candidates cfg remote (pre @ [l]) =
        (Inr (None, None),
         concat (map (\<lambda>p. [Probe p, Sleep (request_interval cfg)]) pre) @ [Probe l])) \<and>
   probe_candidates cfg remote [] = (Inr (None, None), []) \<and>
   (generate_candidate_urls cfg current_time 12 = Inr urls \<longrightarrow>
      find_latest_file cfg current_time remote = probe_candidates cfg remote urls)"
proof (intro conjI impI)
  assume misses: "\<forall>p\<in>set pre. \<exists>s. check_file_exists (remote p) = Inr (False, s)"
    and hit: "check_file_exists (remote u) = Inr (True, sz)"
  have "int 0 + int (length pre) < int (length (pre @ u # post))" by simp
  from probe_loop_misses [OF misses this, of "request_interval cfg" "u # post" "[]"] hit
  show "probe_candidates cfg remote (pre @ u # post) =
        (Inr (Some u, sz),
         concat (map (\<lambda>p. [Probe p, Sleep (request_interval cfg)]) pre) @ [Probe u])"
    by (simp add: probe_candidates_def)
next
  assume "\<forall>p\<in>set (pre @ [l]). \<exists>s. check_file_exists (remote p) = Inr (False, s)"
  then have misses: "\<forall>p\<in>set pre. \<exists>s. check_file_exists (remote p) = Inr (False, s)"
    and last: "\<exists>s. check_file_exists (remote l) = Inr (False, s)" by auto
  from last obtain s where s: "check_file_exists (remote l) = Inr (False, s)" ..
  have "int 0 + int (length pre) < int (length (pre @ [l]))" by simp
  from probe_loop_misses [OF misses this, of "request_interval cfg" "[l]" "[]"] s
  show "probe_candidates cfg remote (pre @ [l]) =
        (Inr (None, None),
         concat (map (\<lambda>p. [Probe p, Sleep (request_interval cfg)]) pre) @ [Probe l])"
    by (simp add: probe_candidates_def)
next
  show "probe_candidates cfg remote [] = (Inr (None, None), [])"
    by (simp add: probe_candidates_def)
next
  assume "generate_candidate_urls cfg current_time 12 = Inr urls"
  then show "find_latest_file cfg current_time remote = probe_candidates cfg remote urls"
    by (simp add: find_latest_file_def)
qed

theorem find_latest_file_first_hit_witness:
  "probe_candidates
     \<lparr>base_url = ''http://h/'', forecast_hours = [0, 3, 6, 9, 12, 15, 18, 21],
       data_delay_hours = 2, max_retries = 3, retry_delay = 5, request_interval = 1\<rparr>
     (\<lambda>url. if url = ''b'' then HeadResponse 200 (Some ''123'') else HeadResponse 404 None)
     [''a'', ''b'', ''c''] =
   (Inr (Some ''b'', Some 123), [Probe ''a'', Sleep 1, Probe ''b'']) \<and>
   probe_candidates
     \<lparr>base_url = ''http://h/'', forecast_hours = [0, 3, 6, 9, 12, 15, 18, 21],
       data_delay_hours = 2, max_retries = 3, retry_delay = 5, request_interval = 1\<rparr>
     (\<lambda>url. HeadResponse 404 None)
     [''a'', ''b'', ''c''] =
   (Inr (None, None), [Probe ''a'', Sleep 1, Probe ''b'', Sleep 1, Probe ''c''])"
proof -
  have n: "content_length (Some ''123'') = Inr 123"
    by (simp add: content_length_def int_py_def strip_def is_space_def parse_unsigned_def digit_val_def)
  show ?thesis
    using find_latest_file_first_hit
      [of "[''a'']" "\<lambda>url. if url = ''b'' then HeadResponse 200 (Some ''123'') else HeadResponse 404 None"
          "''b''" "Some 123"
          "\<lparr>base_url = ''http://h/'', forecast_hours = [0, 3, 6, 9, 12, 15, 18, 21],
            data_delay_hours = 2, max_retries = 3, retry_delay = 5, request_interval = 1\<rparr>"
          "[''c'']" "''c''"]
      find_latest_file_first_hit
      [of "[''a'', ''b'']" "\<lambda>url. HeadResponse 404 None"
          "''b''" "Some 123"
          "\<lparr>base_url = ''http://h/'', forecast_hours = [0, 3, 6, 9, 12, 15, 18, 21],
            data_delay_hours = 2, max_retries = 3, retry_delay = 5, request_interval = 1\<rparr>"
          "[''c'']" "''c''"]
      n
    by (simp add: check_file_exists_def)
qed

section \<open>Properties of the animation encoder\<close>

text \<open>
  Claim C3, the code on a dataset with an empty time axis: no frame is rendered,
  \<open>images[0]\<close> raises \<open>IndexError\<close> in the first round of the loop, and the
  temporary directory \<open>cloud_temp_all_layers\<close> made for that round still exists when
  \<open>generate_cloud_gifs\<close> ends.
\<close>

theorem generate_cloud_gifs_zero_frames:
  "fst (generate_cloud_gifs 0 [] ''static/images'' \<lparr>dirs = Map.empty, gifs = Map.empty\<rparr>) =
     Inl IndexError \<and>
   dirs (snd (generate_cloud_gifs 0 [] ''static/images'' \<lparr>dirs = Map.empty, gifs = Map.empty\<rparr>))
     ''cloud_temp_all_layers'' = Some []"
  by (simp add: generate_cloud_gifs_def select_time_steps_def gif_configs_def
      generate_variant_def makedirs_def glob_frames_def save_gif_def Let_def)

section \<open>Properties of the resilient fetcher\<close>

text \<open>
  Claim C1, the code on a retry budget of one attempt whose response announces 4 bytes
  and delivers 2: \<open>download_file\<close> returns \<open>False\<close> and the 2 bytes stay at the
  destination path.
\<close>

theorem download_file_size_mismatch_last_attempt:
  "download_file
     \<lparr>base_url = ''http://h/'', forecast_hours = [0, 3, 6, 9, 12, 15, 18, 21],
       data_delay_hours = 2, max_retries = 1, retry_delay = 5, request_interval = 1\<rparr>
     (\<lambda>n. GetResponse (Some ''4'') True True [''ab''] StreamComplete)
     ''http://h/20251219/MSM2025121903S.nc'' ''MSM2025121903S.nc'' [] =
   (Inr False,
    [\<lparr>filename = ''MSM2025121903S.nc'', is_file = True, content = ''ab'', removable = True\<rparr>],
    [Get ''http://h/20251219/MSM2025121903S.nc'' 1])"
  by code_simp

section \<open>Properties of the filename codec\<close>

subsection \<open>Names made of ten digits\<close>

lemma slices_of_digits:
  assumes "length a = 4" "length b = 2" "length c = 2" "length d = 2"
  shows "slice 0 4 (slice 3 13 (''MSM'' @ a @ b @ c @ d @ tail)) = a"
    and "slice 4 6 (slice 3 13 (''MSM'' @ a @ b @ c @ d @ tail)) = b"
    and "slice 6 8 (slice 3 13 (''MSM'' @ a @ b @ c @ d @ tail)) = c"
    and "slice 8 10 (slice 3 13 (''MSM'' @ a @ b @ c @ d @ tail)) = d"
  using assms by (simp_all add: slice_def)

lemma startswith_MSM: "startswith (''MSM'' @ rest) ''MSM''"
  by (simp add: startswith_def)

lemma parse_filename_digits:
  assumes "0 \<le> y" "y < 10000" "0 \<le> m" "m < 100" "0 \<le> d" "d < 100" "0 \<le> h" "h < 100"
    and "endswith (''MSM'' @ zero_pad 4 y @ zero_pad 2 m @ zero_pad 2 d @ zero_pad 2 h @ tail) ''S.nc''"
  shows "parse_filename (''MSM'' @ zero_pad 4 y @ zero_pad 2 m @ zero_pad 2 d @ zero_pad 2 h @ tail) =
    (case datetime_py y m d h of Inl e \<Rightarrow> Inr None | Inr t \<Rightarrow> Inr (Some t))"
proof -
  note sl = slices_of_digits [OF length_zero_pad_4 [OF assms(1,2)] length_zero_pad_2 [OF assms(3,4)]
      length_zero_pad_2 [OF assms(5,6)] length_zero_pad_2 [OF assms(7,8)], of tail]
  have e: "datetime_py y m d h = Inl e \<Longrightarrow> e = ValueError" for e
    by (simp add: datetime_py_def Let_def split: if_splits)
  show ?thesis
    unfolding parse_filename_def parse_filename_try_def Let_def sl
    using assms(9) e
    by (simp add: startswith_def int_py_pad4 [OF assms(1,2)] int_py_pad2 [OF assms(3,4)]
        int_py_pad2 [OF assms(5,6)] int_py_pad2 [OF assms(7,8)] split: sum.splits)
qed




subsection \<open>\<open>parse_filename\<close> raises nothing\<close>

lemma int_py_Inl: "int_py s = Inl e \<Longrightarrow> e = ValueError"
  by (auto simp: int_py_def split: list.splits if_splits option.splits)

lemma datetime_py_Inl: "datetime_py y m d h = Inl e \<Longrightarrow> e = ValueError"
  by (simp add: datetime_py_def Let_def split: if_splits)

lemma parse_filename_try_Inl: "parse_filename_try fname = Inl e \<Longrightarrow> e = ValueError"
  by (auto simp: parse_filename_try_def Let_def split: if_splits sum.splits
      dest: int_py_Inl datetime_py_Inl)

lemma parse_filename_total: "\<exists>r. parse_filename fname = Inr r"
  by (auto simp: parse_filename_def split: sum.splits dest: parse_filename_try_Inl)

lemma parse_filename_value_eq: "parse_filename fname = Inr (parse_filename_value fname)"
  using parse_filename_total [of fname] by (auto simp: parse_filename_value_def)

lemma parse_digits_chars:
  "parse_digits acc cs = Some n \<Longrightarrow> c \<in> set cs \<Longrightarrow> c = CHR ''_'' \<or> digit_val c \<noteq> None"
  by (induction acc cs rule: parse_digits.induct) (auto split: if_splits option.splits)

lemma parse_unsigned_chars:
  "parse_unsigned cs = Some n \<Longrightarrow> c \<in> set cs \<Longrightarrow> c = CHR ''_'' \<or> digit_val c \<noteq> None"
  by (cases cs) (auto simp: parse_unsigned_def split: option.splits dest: parse_digits_chars)

lemma set_dropWhile_keeps: "x \<in> set xs \<Longrightarrow> \<not> P x \<Longrightarrow> x \<in> set (dropWhile P xs)"
  by (induction xs) auto

lemma strip_keeps: "c \<in> set s \<Longrightarrow> \<not> is_space c \<Longrightarrow> c \<in> set (strip s)"
  by (simp add: strip_def set_dropWhile_keeps)

lemma int_py_chars:
  assumes "int_py s = Inr v" "c \<in> set s"
  shows "int_literal_char c"
proof (cases "is_space c")
  case True
  then show ?thesis by (simp add: int_literal_char_def)
next
  case False
  with assms(2) have "c \<in> set (strip s)" by (rule strip_keeps)
  with assms(1) show ?thesis
    by (auto simp: int_py_def int_literal_char_def split: list.splits if_splits option.splits
        dest: parse_unsigned_chars)
qed

lemma int_py_empty: "int_py [] = Inl ValueError"
  by (simp add: int_py_def strip_def)

lemma parse_filename_bad_field:
  assumes "int_py (slice 0 4 (slice 3 13 fname)) = Inl e1 \<or>
           int_py (slice 4 6 (slice 3 13 fname)) = Inl e2 \<or>
           int_py (slice 6 8 (slice 3 13 fname)) = Inl e3 \<or>
           int_py (slice 8 10 (slice 3 13 fname)) = Inl e4"
  shows "parse_filename fname = Inr None"
  using assms
  by (auto simp: parse_filename_def parse_filename_try_def Let_def
      split: sum.splits dest: int_py_Inl datetime_py_Inl)

lemma fields_cover:
  "set (slice 3 13 fname) =
     set (slice 0 4 (slice 3 13 fname)) \<union> set (slice 4 6 (slice 3 13 fname)) \<union>
     set (slice 6 8 (slice 3 13 fname)) \<union> set (slice 8 10 (slice 3 13 fname))"
proof -
  define ds where "ds = slice 3 13 fname"
  have "length ds \<le> 10" by (simp add: ds_def slice_def)
  then have "ds = take 10 ds" by simp
  also have "\<dots> = take 4 ds @ take 2 (drop 4 ds) @ take 2 (drop 6 ds) @ take 2 (drop 8 ds)"
    using take_add [of 4 6 ds] take_add [of 2 4 "drop 4 ds"] take_add [of 2 2 "drop 6 ds"]
    by (simp add: add.commute)
  finally have "set ds = set (take 4 ds @ take 2 (drop 4 ds) @ take 2 (drop 6 ds) @ take 2 (drop 8 ds))"
    by simp
  then show ?thesis
    unfolding ds_def [symmetric] by (simp add: slice_def Un_assoc)
qed

lemma parse_filename_bad_char:
  assumes "c \<in> set (slice 3 13 fname)" "\<not> int_literal_char c"
  shows "parse_filename fname = Inr None"
proof -
  from assms(1) fields_cover [of fname]
  consider "c \<in> set (slice 0 4 (slice 3 13 fname))" | "c \<in> set (slice 4 6 (slice 3 13 fname))"
    | "c \<in> set (slice 6 8 (slice 3 13 fname))" | "c \<in> set (slice 8 10 (slice 3 13 fname))"
    by auto
  then show ?thesis
  proof cases
    case 1
    with assms(2) int_py_chars obtain e where "int_py (slice 0 4 (slice 3 13 fname)) = Inl e"
      by (cases "int_py (slice 0 4 (slice 3 13 fname))") auto
    then show ?thesis using parse_filename_bad_field by blast
  next
    case 2
    with assms(2) int_py_chars obtain e where "int_py (slice 4 6 (slice 3 13 fname)) = Inl e"
      by (cases "int_py (slice 4 6 (slice 3 13 fname))") auto
    then show ?thesis using parse_filename_bad_field by blast
  next
    case 3
    with assms(2) int_py_chars obtain e where "int_py (slice 6 8 (slice 3 13 fname)) = Inl e"
      by (cases "int_py (slice 6 8 (slice 3 13 fname))") auto
    then show ?thesis using parse_filename_bad_field by blast
  next
    case 4
    with assms(2) int_py_chars obtain e where "int_py (slice 8 10 (slice 3 13 fname)) = Inl e"
      by (cases "int_py (slice 8 10 (slice 3 13 fname))") auto
    then show ?thesis using parse_filename_bad_field by blast
  qed
qed

lemma suffix_chars_not_literal:
  "c \<in> set ''S.nc'' \<Longrightarrow> \<not> int_literal_char c"
  by (auto simp: int_literal_char_def is_space_def digit_val_def)

lemma hour_field_short:
  assumes "length pre < 13"
  shows "take 2 (drop 11 (take 13 (pre @ ''S.nc''))) = [] \<or>
         (\<exists>c\<in>set (take 2 (drop 11 (take 13 (pre @ ''S.nc'')))). c \<in> set ''S.nc'')"
proof -
  consider "length pre \<le> 7" | "length pre = 8" | "length pre = 9" | "length pre = 10"
    | "length pre = 11" | "length pre = 12"
    using assms by linarith
  then show ?thesis
    by cases auto
qed

lemma endswith_split: "endswith s p \<Longrightarrow> s = take (length s - length p) s @ p"
  using append_take_drop_id [of "length s - length p" s] by (simp add: endswith_def)

lemma parse_filename_short:
  assumes "length fname < 17"
  shows "parse_filename fname = Inr None"
proof (cases "startswith fname ''MSM'' \<and> endswith fname ''S.nc''")
  case False
  then show ?thesis by (auto simp: parse_filename_def parse_filename_try_def)
next
  case True
  define pre where "pre = take (length fname - length ''S.nc'') fname"
  have f: "fname = pre @ ''S.nc''"
    unfolding pre_def using True by (intro endswith_split) simp
  have k: "length pre < 13" using assms by (simp add: pre_def)
  define hs where "hs = slice 8 10 (slice 3 13 fname)"
  have "take 10 (drop 3 fname) = drop 3 (take 13 fname)" by (simp add: drop_take)
  then have hs: "hs = take 2 (drop 11 (take 13 (pre @ ''S.nc'')))"
    by (simp add: hs_def slice_def f [symmetric])
  have "\<exists>e. int_py hs = Inl e"
  proof (rule ccontr)
    assume "\<not> (\<exists>e. int_py hs = Inl e)"
    then obtain v where r: "int_py hs = Inr v" by (cases "int_py hs") auto
    have "hs \<noteq> []" using r int_py_empty by (metis sum.distinct(1))
    with hour_field_short [OF k] hs obtain c where "c \<in> set hs" "c \<in> set ''S.nc''" by auto
    with int_py_chars [OF r] suffix_chars_not_literal show False by blast
  qed
  then show ?thesis
    unfolding hs_def using parse_filename_bad_field by blast
qed

text \<open>
  A name with further characters between the ten digits and the suffix \<open>S.nc\<close> is
  parsed, and so is a name whose date fields hold blanks and a sign.
\<close>

theorem parse_filename_counterexample:
  "parse_filename ''MSM2025122403_oldS.nc'' =
     Inr (Some \<lparr>year = 2025, month = 12, day = 24, hour = 3, minute = 0, second = 0, microsecond = 0\<rparr>) \<and>
   parse_filename ''MSM2025 1+1 2S.nc'' =
     Inr (Some \<lparr>year = 2025, month = 1, day = 1, hour = 2, minute = 0, second = 0, microsecond = 0\<rparr>)"
  by code_simp

text \<open>
  Claim C9, amended. \<open>parse_filename\<close> raises nothing on any string. It returns
  \<open>None\<close> when the name lacks the prefix \<open>MSM\<close> or the suffix \<open>S.nc\<close>, when it has
  fewer than 17 characters, and when one of the characters 3 to 12 is none of those
  \<open>int\<close> accepts (a digit, white space, a sign, an underscore). When the characters
  3 to 12 are ten digits and the name ends with \<open>S.nc\<close>, whatever stands between,
  it returns the datetime they encode if that is a valid date and hour, and \<open>None\<close>
  if it is not.
\<close>

theorem parse_filename_total_and_rejects:
  "(\<exists>r. parse_filename fname = Inr r) \<and>
   (\<not> startswith fname ''MSM'' \<or> \<not> endswith fname ''S.nc'' \<longrightarrow> parse_filename fname = Inr None) \<and>
   (length fname < 17 \<longrightarrow> parse_filename fname = Inr None) \<and>
   ((\<exists>c\<in>set (slice 3 13 fname). \<not> int_literal_char c) \<longrightarrow> parse_filename fname = Inr None) \<and>
   (0 \<le> y \<and> y < 10000 \<and> 0 \<le> m \<and> m < 100 \<and> 0 \<le> d \<and> d < 100 \<and> 0 \<le> h \<and> h < 100 \<and>
    endswith (''MSM'' @ zero_pad 4 y @ zero_pad 2 m @ zero_pad 2 d @ zero_pad 2 h @ tail) ''S.nc'' \<longrightarrow>
      parse_filename (''MSM'' @ zero_pad 4 y @ zero_pad 2 m @ zero_pad 2 d @ zero_pad 2 h @ tail) =
        (if valid_datetime
              \<lparr>year = y, month = m, day = d, hour = h, minute = 0, second = 0, microsecond = 0\<rparr>
         then Inr (Some \<lparr>year = y, month = m, day = d, hour = h,
                         minute = 0, second = 0, microsecond = 0\<rparr>)
         else Inr None))"
proof (intro conjI impI)
  show "\<exists>r. parse_filename fname = Inr r" by (rule parse_filename_total)
next
  assume "\<not> startswith fname ''MSM'' \<or> \<not> endswith fname ''S.nc''"
  then show "parse_filename fname = Inr None"
    by (auto simp: parse_filename_def parse_filename_try_def)
next
  assume "length fname < 17"
  then show "parse_filename fname = Inr None" by (rule parse_filename_short)
next
  assume "\<exists>c\<in>set (slice 3 13 fname). \<not> int_literal_char c"
  then show "parse_filename fname = Inr None" using parse_filename_bad_char by blast
next
  assume a: "0 \<le> y \<and> y < 10000 \<and> 0 \<le> m \<and> m < 100 \<and> 0 \<le> d \<and> d < 100 \<and> 0 \<le> h \<and> h < 100 \<and>
    endswith (''MSM'' @ zero_pad 4 y @ zero_pad 2 m @ zero_pad 2 d @ zero_pad 2 h @ tail) ''S.nc''"
  then have "parse_filename (''MSM'' @ zero_pad 4 y @ zero_pad 2 m @ zero_pad 2 d @ zero_pad 2 h @ tail) =
    (case datetime_py y m d h of Inl e \<Rightarrow> Inr None | Inr t \<Rightarrow> Inr (Some t))"
    by (intro parse_filename_digits) simp_all
  then show "parse_filename (''MSM'' @ zero_pad 4 y @ zero_pad 2 m @ zero_pad 2 d @ zero_pad 2 h @ tail) =
        (if valid_datetime
              \<lparr>year = y, month = m, day = d, hour = h, minute = 0, second = 0, microsecond = 0\<rparr>
         then Inr (Some \<lparr>year = y, month = m, day = d, hour = h,
                         minute = 0, second = 0, microsecond = 0\<rparr>)
         else Inr None)"
    by (simp add: datetime_py_def Let_def)
qed

theorem parse_filename_total_and_rejects_witness:
  "parse_filename ''XSM2025122403S.nc'' = Inr None \<and>
   parse_filename ''MSM20251224S.nc'' = Inr None \<and>
   parse_filename ''MSM2025x22403S.nc'' = Inr None \<and>
   parse_filename ''MSM2025023003S.nc'' = Inr None \<and>
   parse_filename ''MSM2024022903_S.nc'' =
     Inr (Some \<lparr>year = 2024, month = 2, day = 29, hour = 3, minute = 0, second = 0, microsecond = 0\<rparr>)"
proof -
  have z: "zero_pad 4 2025 = ''2025''" "zero_pad 4 2024 = ''2024''" "zero_pad 2 2 = ''02''"
    "zero_pad 2 30 = ''30''" "zero_pad 2 29 = ''29''" "zero_pad 2 3 = ''03''"
    by code_simp+
  have v: "\<not> valid_datetime
      \<lparr>year = 2025, month = 2, day = 30, hour = 3, minute = 0, second = 0, microsecond = 0\<rparr>"
    "valid_datetime
      \<lparr>year = 2024, month = 2, day = 29, hour = 3, minute = 0, second = 0, microsecond = 0\<rparr>"
    by (simp_all add: valid_datetime_def days_in_month_def is_leap_def)
  have c: "CHR ''x'' \<in> set (slice 3 13 ''MSM2025x22403S.nc'')" "\<not> int_literal_char CHR ''x''"
    by (simp_all add: slice_def int_literal_char_def is_space_def digit_val_def)
  then have ex: "\<exists>c\<in>set (slice 3 13 ''MSM2025x22403S.nc''). \<not> int_literal_char c"
    by blast
  show ?thesis
    using parse_filename_total_and_rejects [of "''XSM2025122403S.nc''" 2025 2 30 3 "''S.nc''"]
      parse_filename_total_and_rejects [of "''MSM20251224S.nc''" 2024 2 29 3 "''_S.nc''"]
      parse_filename_total_and_rejects [of "''MSM2025x22403S.nc''" 2024 2 29 3 "''_S.nc''"]
      ex
    by (simp add: z v startswith_def endswith_def)
qed



section \<open>Properties of the automatic download\<close>

text \<open>
  Claim C10, the code on a cache that holds the cycle of 03:00 and the cycle of 00:00
  when the probe of the 03:00 file fails and the 00:00 file is found with the size of
  the cached one: \<open>download_auto\<close> makes no download attempt and returns success,
  but its keep-latest cleanup deletes the file that was found and keeps the newer one.
\<close>

theorem download_auto_deletes_found_file:
  "download_auto
     \<lparr>base_url = ''http://h/'', forecast_hours = [0, 3, 6, 9, 12, 15, 18, 21],
       data_delay_hours = 2, max_retries = 3, retry_delay = 5, request_interval = 1\<rparr>
     \<lparr>year = 2025, month = 12, day = 19, hour = 5, minute = 30, second = 0, microsecond = 0\<rparr>
     (\<lambda>url. if url = ''http://h/20251219/MSM2025121900S.nc''
            then HeadResponse 200 (Some ''3'') else HeadRequestException)
     (\<lambda>n. GetTimeout)
     (Some [\<lparr>filename = ''MSM2025121903S.nc'', is_file = True, content = ''abcde'', removable = True\<rparr>,
            \<lparr>filename = ''MSM2025121900S.nc'', is_file = True, content = ''xyz'', removable = True\<rparr>]) =
   (Inr True,
    Some [\<lparr>filename = ''MSM2025121903S.nc'', is_file = True, content = ''abcde'', removable = True\<rparr>],
    [Probe ''http://h/20251219/MSM2025121903S.nc'', Sleep 1,
     Probe ''http://h/20251219/MSM2025121900S.nc''],
    [])"
  by code_simp

end
